theory Spec2Isabelle
  imports Main
begin

section \<open>Go values and standard-library functions used by the decoder\<close>

text \<open>
  A Go \<open>string\<close> is a sequence of bytes: it is modelled as a \<open>string\<close> (a list of
  8-bit \<open>char\<close>s). Go's \<open>int\<close> is modelled as \<open>int\<close>; every integer of the code is a
  length or a byte value, far from the 64-bit bounds. A run-time panic (an index or a
  slice out of range) is the value \<open>None\<close>.
\<close>

definition go_index :: "'a list \<Rightarrow> int \<Rightarrow> 'a option" where
  \<comment> \<open>\<open>xs[i]\<close>: panics unless \<open>0 \<le> i < len(xs)\<close>.\<close>
  "go_index xs i = (if 0 \<le> i \<and> i < int (length xs) then Some (xs ! nat i) else None)"

definition go_slice :: "'a list \<Rightarrow> int \<Rightarrow> int \<Rightarrow> 'a list option" where
  \<comment> \<open>\<open>xs[lo:hi]\<close>: panics unless \<open>0 \<le> lo \<le> hi \<le> len(xs)\<close>.\<close>
  "go_slice xs lo hi =
     (if 0 \<le> lo \<and> lo \<le> hi \<and> hi \<le> int (length xs)
      then Some (take (nat (hi - lo)) (drop (nat lo) xs)) else None)"

definition strings_HasPrefix :: "string \<Rightarrow> string \<Rightarrow> bool" where
  "strings_HasPrefix s p = (length p \<le> length s \<and> take (length p) s = p)"

definition strings_HasSuffix :: "string \<Rightarrow> string \<Rightarrow> bool" where
  "strings_HasSuffix s p = (length p \<le> length s \<and> drop (length s - length p) s = p)"

fun strings_Index :: "string \<Rightarrow> string \<Rightarrow> nat option" where
  \<comment> \<open>\<open>strings.Index(s, sep)\<close>: the offset of the first occurrence, \<open>None\<close> for -1.\<close>
  "strings_Index [] sep = (if sep = [] then Some 0 else None)"
| "strings_Index (c # s) sep =
     (if strings_HasPrefix (c # s) sep then Some 0
      else map_option Suc (strings_Index s sep))"

definition strings_Contains :: "string \<Rightarrow> string \<Rightarrow> bool" where
  "strings_Contains s sep = (strings_Index s sep \<noteq> None)"

definition strings_SplitN2 :: "string \<Rightarrow> string \<Rightarrow> string list" where
  \<comment> \<open>\<open>strings.SplitN(s, sep, 2)\<close> for a non-empty \<open>sep\<close>: cut at the first occurrence.\<close>
  "strings_SplitN2 s sep =
     (case strings_Index s sep of
        None \<Rightarrow> [s]
      | Some i \<Rightarrow> [take i s, drop (i + length sep) s])"

fun split_loop :: "char \<Rightarrow> string \<Rightarrow> string \<Rightarrow> string list" where
  \<comment> \<open>The scan shared by \<open>strings.Split\<close> (one-byte separator) and \<open>splitString\<close>:
      \<open>cur\<close> is \<open>s[start:i]\<close>, the piece being read.\<close>
  "split_loop sep cur [] = [cur]"
| "split_loop sep cur (c # s) =
     (if c = sep then cur # split_loop sep [] s else split_loop sep (cur @ [c]) s)"

definition strings_Split :: "string \<Rightarrow> char \<Rightarrow> string list" where
  \<comment> \<open>\<open>strings.Split(s, sep)\<close> for the one-byte separator the code passes.\<close>
  "strings_Split s sep = split_loop sep [] s"

fun strconv_digits :: "nat \<Rightarrow> nat \<Rightarrow> string" where
  \<comment> \<open>The decimal digits of \<open>n\<close>; the first argument bounds the number of digits.\<close>
  "strconv_digits 0 n = []"
| "strconv_digits (Suc k) n =
     (if n < 10 then [char_of (48 + n)]
      else strconv_digits k (n div 10) @ [char_of (48 + n mod 10)])"

definition strconv_Itoa :: "int \<Rightarrow> string" where
  \<comment> \<open>\<open>%d\<close> of \<open>fmt.Sprintf\<close>.\<close>
  "strconv_Itoa i =
     (if i < 0 then CHR ''-'' # strconv_digits (Suc (nat (- i))) (nat (- i))
      else strconv_digits (Suc (nat i)) (nat i))"

subsection \<open>encoding/base64: \<open>base64.URLEncoding\<close>\<close>

text \<open>
  \<open>base64.URLEncoding\<close> is the padded, non-strict encoding over the URL-safe alphabet.
  Its decoder reads the input in quanta of four alphabet characters, skips every CR and
  LF, accepts the padding \<open>=\<close> only to complete the last quantum, and reports the first
  offending offset as a \<open>CorruptInputError\<close>.
\<close>

definition encodeURL :: string where
  "encodeURL = ''ABCDEFGHIJKLMNOPQRSTUVWXYZabcdefghijklmnopqrstuvwxyz0123456789-_''"

definition decodeMap :: "char \<Rightarrow> nat option" where
  \<comment> \<open>\<open>enc.decodeMap[c]\<close>; \<open>None\<close> stands for the entry 0xff of a byte outside the alphabet.\<close>
  "decodeMap c = map_of (zip encodeURL [0..<length encodeURL]) c"

definition quantumBytes :: "nat list \<Rightarrow> string" where
  \<comment> \<open>The tail of \<open>decodeQuantum\<close>: \<open>dlen\<close> six-bit values (the rest of \<open>dbuf\<close> is zero) give
      \<open>dlen - 1\<close> bytes. The values are below 64, so the sum is the code's bitwise or of
      the shifted values.\<close>
  "quantumBytes dbuf =
     (let d = dbuf @ replicate (4 - length dbuf) 0;
          val = d ! 0 * 2 ^ 18 + d ! 1 * 2 ^ 12 + d ! 2 * 2 ^ 6 + d ! 3
      in take (length dbuf - 1)
           [char_of (val div 2 ^ 16), char_of (val div 2 ^ 8), char_of val])"

fun skipNewlines :: "string \<Rightarrow> string" where
  "skipNewlines [] = []"
| "skipNewlines (c # s) =
     (if c = CHR 0x0A \<or> c = CHR 0x0D then skipNewlines s else c # s)"

fun decodeLoop :: "nat \<Rightarrow> nat list \<Rightarrow> string \<Rightarrow> nat + string" where
  \<comment> \<open>\<open>Encoding.Decode\<close> with \<open>decodeQuantum\<close> unrolled over the input: \<open>si\<close> is the offset
      of the next input byte, \<open>dbuf\<close> the six-bit values of the quantum being read.
      \<open>Inl n\<close> is \<open>CorruptInputError(n)\<close>.\<close>
  "decodeLoop si dbuf [] = (if dbuf = [] then Inr [] else Inl (si - length dbuf))"
| "decodeLoop si dbuf (c # src) =
     (case decodeMap c of
        Some out \<Rightarrow>
          if length dbuf = 3
          then (case decodeLoop (si + 1) [] src of
                  Inl e \<Rightarrow> Inl e
                | Inr rest \<Rightarrow> Inr (quantumBytes (dbuf @ [out]) @ rest))
          else decodeLoop (si + 1) (dbuf @ [out]) src
      | None \<Rightarrow>
          if c = CHR 0x0A \<or> c = CHR 0x0D then decodeLoop (si + 1) dbuf src
          else if c \<noteq> CHR ''='' then Inl si
          else if length dbuf < 2 then Inl si
          else if length dbuf = 2 then
            (let src1 = skipNewlines src;
                 si1 = si + 1 + (length src - length src1)
             in case src1 of
                  [] \<Rightarrow> Inl si1
                | c1 # src2 \<Rightarrow>
                    if c1 \<noteq> CHR ''='' then Inl (si1 - 1)
                    else (let src3 = skipNewlines src2;
                              si3 = si1 + 1 + (length src2 - length src3)
                          in if src3 \<noteq> [] then Inl si3 else Inr (quantumBytes dbuf)))
          else
            (let src1 = skipNewlines src;
                 si1 = si + 1 + (length src - length src1)
             in if src1 \<noteq> [] then Inl si1 else Inr (quantumBytes dbuf)))"

definition base64_DecodeString :: "string \<Rightarrow> nat + string" where
  \<comment> \<open>\<open>base64.URLEncoding.DecodeString(s)\<close>; the bytes decoded before an error are
      dropped, the code never reads them.\<close>
  "base64_DecodeString s = decodeLoop 0 [] s"

definition CorruptInputError_Error :: "nat \<Rightarrow> string" where
  "CorruptInputError_Error e = ''illegal base64 data at input byte '' @ strconv_Itoa (int e)"

fun encodeLoop :: "bool \<Rightarrow> string \<Rightarrow> string" where
  \<comment> \<open>\<open>Encoding.Encode\<close> over the URL-safe alphabet; the flag says whether the last
      quantum is padded (\<open>URLEncoding\<close>) or not (\<open>RawURLEncoding\<close>).\<close>
  "encodeLoop padded (a # b # c # src) =
     (let val = of_char a * 2 ^ 16 + of_char b * 2 ^ 8 + of_char c
      in [encodeURL ! (val div 2 ^ 18 mod 64), encodeURL ! (val div 2 ^ 12 mod 64),
          encodeURL ! (val div 2 ^ 6 mod 64), encodeURL ! (val mod 64)]
         @ encodeLoop padded src)"
| "encodeLoop padded [a, b] =
     (let val = of_char a * 2 ^ 16 + of_char b * 2 ^ 8
      in [encodeURL ! (val div 2 ^ 18 mod 64), encodeURL ! (val div 2 ^ 12 mod 64),
          encodeURL ! (val div 2 ^ 6 mod 64)]
         @ (if padded then ''='' else []))"
| "encodeLoop padded [a] =
     (let val = of_char a * 2 ^ 16
      in [encodeURL ! (val div 2 ^ 18 mod 64), encodeURL ! (val div 2 ^ 12 mod 64)]
         @ (if padded then ''=='' else []))"
| "encodeLoop padded [] = []"

definition base64_RawURLEncoding_EncodeToString :: "string \<Rightarrow> string" where
  "base64_RawURLEncoding_EncodeToString src = encodeLoop False src"

section \<open>decoder.go: the binary token record\<close>

definition removePrefix :: "string \<Rightarrow> string option" where
  \<comment> \<open>"Remove prefix": \<open>if strings.HasPrefix(decodedStr, prefix) { decodedStr = decodedStr[len(prefix):] }\<close>\<close>
  "removePrefix decodedStr =
     (let prefix = [CHR 0x08, CHR 0x13, CHR 0x22]
      in if strings_HasPrefix decodedStr prefix
         then go_slice decodedStr (int (length prefix)) (int (length decodedStr))
         else Some decodedStr)"

definition removeSuffix :: "string \<Rightarrow> string option" where
  \<comment> \<open>"Remove suffix": \<open>decodedStr = decodedStr[:len(decodedStr)-len(suffix)]\<close>\<close>
  "removeSuffix decodedStr =
     (let suffix = [CHR 0xD2, CHR 0x01, CHR 0x00]
      in if strings_HasSuffix decodedStr suffix
         then go_slice decodedStr 0 (int (length decodedStr) - int (length suffix))
         else Some decodedStr)"

definition extractURL :: "string \<Rightarrow> string option" where
  \<comment> \<open>"Extract URL based on length byte".\<close>
  "extractURL decodedStr =
     (if length decodedStr > 0 then
        (case go_index decodedStr 0 of
           None \<Rightarrow> None
         | Some b \<Rightarrow>
             (let len = int (of_char b :: nat)
              in if len \<ge> 0x80 \<and> int (length decodedStr) > len + 1
                 then go_slice decodedStr 2 (len + 1)
                 else if int (length decodedStr) > len + 1
                 then go_slice decodedStr 1 (len + 1)
                 else Some decodedStr))
      else Some decodedStr)"

definition decodeRecord :: "string \<Rightarrow> string option" where
  \<comment> \<open>The three steps in the order of the code, on \<open>string(decodedBytes)\<close>.\<close>
  "decodeRecord decodedBytes =
     (case removePrefix decodedBytes of
        None \<Rightarrow> None
      | Some s1 \<Rightarrow>
          (case removeSuffix s1 of
             None \<Rightarrow> None
           | Some s2 \<Rightarrow> extractURL s2))"

section \<open>decoder.go: results, requests and the network\<close>

record DecodeResult =
  Status :: bool
  DecodedURL :: string
  Message :: string

record BatchDecodeResult =
  BStatus :: bool
  URLs :: "string list"
  Error :: string

record URL =
  Host :: string
  Path :: string

text \<open>
  \<open>url.Parse\<close> belongs to the standard library. Its outcome on the source URL is the
  input of every decoder below: \<open>Inl\<close> the text of the error (what \<open>%v\<close> prints), \<open>Inr\<close>
  the \<open>Host\<close> and \<open>Path\<close> of the parsed URL, the only fields the code reads.
\<close>

type_synonym parsed = "string + URL"

record request =
  Method :: string
  Target :: string
  Body :: string
  Header :: "string \<rightharpoonup> string"

record response =
  StatusCode :: int
  Data :: string
  ReadErr :: "string option"

text \<open>
  The collaborators outside the repository: building a request, the client's round
  trip, and the form and JSON encoders. \<open>Data\<close> and \<open>ReadErr\<close> of a response are what
  \<open>io.ReadAll(resp.Body)\<close> returns; an error is carried as its text.
\<close>

datatype json = JNull | JBool bool | JNumber string | JString string | JArray "json list"
  | JObject "(string \<times> json) list"

record env =
  http_NewRequest :: "string \<Rightarrow> string \<Rightarrow> string \<Rightarrow> string + request"
  client_Do :: "request \<Rightarrow> string + response"
  url_Values_Encode :: "(string \<times> string) list \<Rightarrow> string"
  json_Marshal :: "json \<Rightarrow> string + string"
  json_Unmarshal :: "string \<Rightarrow> string + json list"

definition failure :: "string \<Rightarrow> DecodeResult" where
  \<comment> \<open>\<open>DecodeResult{Status: false, Message: m}\<close>\<close>
  "failure m = \<lparr>Status = False, DecodedURL = [], Message = m\<rparr>"

definition success :: "string \<Rightarrow> DecodeResult" where
  \<comment> \<open>\<open>DecodeResult{Status: true, DecodedURL: u}\<close>\<close>
  "success u = \<lparr>Status = True, DecodedURL = u, Message = []\<rparr>"

definition dq :: string where
  \<comment> \<open>a double quote\<close>
  "dq = [CHR 0x22]"

definition esc :: string where
  \<comment> \<open>a backslash and a double quote: the escaped quote of the inner JSON\<close>
  "esc = [CHR 0x5C, CHR 0x22]"

definition header :: string where
  "header = ''['' @ esc @ ''garturlres'' @ esc @ '','' @ esc"

definition footer :: string where
  "footer = esc @ '',''"

definition envelope :: "string \<Rightarrow> string \<Rightarrow> string" where
  \<comment> \<open>The request entry of both \<open>fmt.Sprintf\<close> templates, for a token and an output tag.\<close>
  "envelope id' tag =
     ''['' @ dq @ ''Fbv4je'' @ dq @ '','' @ dq @ ''['' @ esc @ ''garturlreq'' @ esc
     @ '',[['' @ esc @ ''en-US'' @ esc @ '','' @ esc @ ''US'' @ esc
     @ '',['' @ esc @ ''FINANCE_TOP_INDICES'' @ esc @ '','' @ esc @ ''WEB_TEST_1_0_0'' @ esc
     @ ''],null,null,1,1,'' @ esc @ ''US:en'' @ esc
     @ '',null,180,null,null,null,null,null,0,null,null,[1608992183,723341000]],''
     @ esc @ ''en-US'' @ esc @ '','' @ esc @ ''US'' @ esc
     @ '',1,[2,3,4,8],1,0,'' @ esc @ ''655000234'' @ esc @ '',0,0,null,0],''
     @ esc @ id' @ esc @ '']'' @ dq @ '',null,'' @ dq @ tag @ dq @ '']''"

definition batchexecute :: string where
  "batchexecute = ''https://news.google.com/_/DotsSplashUi/data/batchexecute?rpcids=Fbv4je''"

definition rpcHeaders :: "request \<Rightarrow> request" where
  "rpcHeaders req =
     req\<lparr>Header := (Header req)
        (''Content-Type'' \<mapsto> ''application/x-www-form-urlencoded;charset=utf-8'',
         ''Referer'' \<mapsto> ''https://news.google.com/'')\<rparr>"

definition fetchDecodedBatchExecute :: "env \<Rightarrow> string \<Rightarrow> string + string" where
  \<comment> \<open>\<open>Inl\<close> is the returned error (its text), \<open>Inr\<close> the recovered URL.\<close>
  "fetchDecodedBatchExecute e id' =
     (let s = ''[['' @ envelope id' ''generic'' @ '']]'';
          reqBody = [(''f.req'', s)]
      in case http_NewRequest e ''POST'' batchexecute (url_Values_Encode e reqBody) of
           Inl err \<Rightarrow> Inl err
         | Inr req \<Rightarrow>
             (case client_Do e (rpcHeaders req) of
                Inl err \<Rightarrow> Inl err
              | Inr resp \<Rightarrow>
                  if StatusCode resp \<noteq> 200
                  then Inl (''failed to fetch data from Google, status: ''
                            @ strconv_Itoa (StatusCode resp))
                  else (case ReadErr resp of
                          Some err \<Rightarrow> Inl err
                        | None \<Rightarrow>
                            (let text = Data resp
                             in if \<not> strings_Contains text header
                                then Inl ''header not found in response''
                                else (let parts = strings_SplitN2 text header
                                      in if length parts < 2
                                         then Inl ''failed to parse response''
                                         else (let start = parts ! 1
                                               in if \<not> strings_Contains start footer
                                                  then Inl ''footer not found in response''
                                                  else Inr (strings_SplitN2 start footer ! 0)))))))"

definition decodeLocal :: "parsed \<Rightarrow> (DecodeResult + string) option" where
  \<comment> \<open>The statements of \<open>DecoderV3\<close> before the request, which are also the loop body of
      \<open>DecoderV4\<close> up to its last \<open>if\<close>: \<open>Inl\<close> the result decided without the network,
      \<open>Inr base64Str\<close> when \<open>decodedStr\<close> starts with \<open>AU_yqL\<close>. \<open>None\<close> is a panic.\<close>
  "decodeLocal src =
     (case src of
        Inl err \<Rightarrow> Some (Inl (failure (''failed to parse URL: '' @ err)))
      | Inr parsedURL \<Rightarrow>
          (let path = strings_Split (Path parsedURL) (CHR ''/'')
           in if Host parsedURL = ''news.google.com'' \<and> length path > 1
                 \<and> (path ! (length path - 2) = ''articles''
                      \<or> path ! (length path - 2) = ''read'')
              then (let base64Str = path ! (length path - 1)
                    in case base64_DecodeString (base64Str @ ''=='') of
                         Inl err \<Rightarrow>
                           Some (Inl (failure (''failed to decode base64: ''
                                               @ CorruptInputError_Error err)))
                       | Inr decodedBytes \<Rightarrow>
                           (case decodeRecord decodedBytes of
                              None \<Rightarrow> None
                            | Some decodedStr \<Rightarrow>
                                if strings_HasPrefix decodedStr ''AU_yqL''
                                then Some (Inr base64Str)
                                else Some (Inl (success decodedStr))))
              else Some (Inl (failure ''invalid Google News URL''))))"

definition DecoderV3 :: "env \<Rightarrow> parsed \<Rightarrow> DecodeResult option" where
  \<comment> \<open>\<open>None\<close> is a panic.\<close>
  "DecoderV3 e src =
     (case decodeLocal src of
        None \<Rightarrow> None
      | Some (Inl r) \<Rightarrow> Some r
      | Some (Inr base64Str) \<Rightarrow>
          (case fetchDecodedBatchExecute e base64Str of
             Inl err \<Rightarrow> Some (failure (''batch execute failed: '' @ err))
           | Inr decoded \<Rightarrow> Some (success decoded)))"

function scanURLs :: "string \<Rightarrow> string list \<Rightarrow> string list" where
  \<comment> \<open>The loop \<open>for strings.Contains(text, header) { ... }\<close> of
      \<open>fetchDecodedBatchExecuteMultiple\<close>, on its variables \<open>text\<close> and \<open>urls\<close>.\<close>
  "scanURLs text urls =
     (if strings_Contains text header
      then (let parts = strings_SplitN2 text header
            in if length parts < 2 then urls
               else (let start = parts ! 1
                     in if \<not> strings_Contains start footer then urls
                        else (let urlParts = strings_SplitN2 start footer
                              in scanURLs (urlParts ! 1) (urls @ [urlParts ! 0]))))
      else urls)"
  by pat_completeness auto
termination
proof (relation "measure (\<lambda>(text, urls). length text)", goal_cases)
  case 1
  show ?case by simp
next
  case (2 t urls parts start urlParts)
  have bound: "i + length sep \<le> length s" if "strings_Index s sep = Some i" for s sep i
    using that
    by (induction s arbitrary: i) (auto simp: strings_HasPrefix_def split: if_splits)
  obtain i where i: "strings_Index t header = Some i"
    using 2 by (auto simp: strings_Contains_def)
  have start: "start = drop (i + length header) t"
    using 2 i by (simp add: strings_SplitN2_def)
  obtain j where j: "strings_Index start footer = Some j"
    using 2 by (auto simp: strings_Contains_def)
  have rest: "urlParts ! 1 = drop (j + length footer) start"
    using 2 j by (simp add: strings_SplitN2_def)
  have "i + length header \<le> length t"
    using i by (rule bound)
  moreover have "0 < length header"
    by (simp add: header_def)
  ultimately have "length t - (j + length footer + (i + length header)) < length t"
    by linarith
  then have "length (urlParts ! 1) < length t"
    unfolding rest start by simp
  then show ?case
    by simp
qed

fun strings_Join :: "string list \<Rightarrow> string \<Rightarrow> string" where
  "strings_Join [] sep = []"
| "strings_Join [x] sep = x"
| "strings_Join (x # y # xs) sep = x @ sep @ strings_Join (y # xs) sep"

fun envelopes :: "nat \<Rightarrow> string list \<Rightarrow> string list" where
  \<comment> \<open>\<open>for i, id := range ids\<close>: the entry of \<open>id\<close> is tagged \<open>i+1\<close>.\<close>
  "envelopes i [] = []"
| "envelopes i (id' # ids) = envelope id' (strconv_Itoa (int i + 1)) # envelopes (Suc i) ids"

definition fetchDecodedBatchExecuteMultiple ::
    "env \<Rightarrow> string list \<Rightarrow> BatchDecodeResult \<times> string option" where
  \<comment> \<open>The pair the function returns: the result and the error (\<open>None\<close> for \<open>nil\<close>).\<close>
  "fetchDecodedBatchExecuteMultiple e ids =
     (let s = ''[['' @ strings_Join (envelopes 0 ids) '','' @ '']]'';
          reqBody = [(''f.req'', s)]
      in case http_NewRequest e ''POST'' batchexecute (url_Values_Encode e reqBody) of
           Inl err \<Rightarrow> (\<lparr>BStatus = False, URLs = [], Error = err\<rparr>, Some err)
         | Inr req \<Rightarrow>
             (case client_Do e (rpcHeaders req) of
                Inl err \<Rightarrow> (\<lparr>BStatus = False, URLs = [], Error = err\<rparr>, Some err)
              | Inr resp \<Rightarrow>
                  if StatusCode resp \<noteq> 200
                  then (let errMsg = ''failed to fetch data from Google, status: ''
                                     @ strconv_Itoa (StatusCode resp)
                        in (\<lparr>BStatus = False, URLs = [], Error = errMsg\<rparr>, Some errMsg))
                  else (case ReadErr resp of
                          Some err \<Rightarrow> (\<lparr>BStatus = False, URLs = [], Error = err\<rparr>, Some err)
                        | None \<Rightarrow>
                            (\<lparr>BStatus = True, URLs = scanURLs (Data resp) [], Error = []\<rparr>,
                             None))))"

record v4_state =
  results :: "DecodeResult list"
  batchIDs :: "string list"
  idToIndex :: "string \<rightharpoonup> nat"

definition go_assign :: "'a list \<Rightarrow> nat \<Rightarrow> 'a \<Rightarrow> 'a list option" where
  \<comment> \<open>\<open>xs[i] = v\<close>: panics unless \<open>i < len(xs)\<close>.\<close>
  "go_assign xs i v = (if i < length xs then Some (xs[i := v]) else None)"

definition go_lookup :: "(string \<rightharpoonup> nat) \<Rightarrow> string \<Rightarrow> nat" where
  \<comment> \<open>\<open>m[k]\<close> of a \<open>map[string]int\<close>: the zero value for a missing key.\<close>
  "go_lookup m k = (case m k of None \<Rightarrow> 0 | Some i \<Rightarrow> i)"

definition set_result :: "v4_state \<Rightarrow> nat \<Rightarrow> DecodeResult \<Rightarrow> v4_state option" where
  \<comment> \<open>\<open>results[i] = r; continue\<close>\<close>
  "set_result st i r =
     (case go_assign (results st) i r of
        None \<Rightarrow> None
      | Some rs \<Rightarrow> Some (st\<lparr>results := rs\<rparr>))"

definition DecoderV4_body :: "nat \<Rightarrow> parsed \<Rightarrow> v4_state \<Rightarrow> v4_state option" where
  \<comment> \<open>One round of \<open>for i, sourceURL := range sourceURLs\<close>.\<close>
  "DecoderV4_body i src st =
     (case decodeLocal src of
        None \<Rightarrow> None
      | Some (Inl r) \<Rightarrow> set_result st i r
      | Some (Inr base64Str) \<Rightarrow>
          Some (st\<lparr>batchIDs := batchIDs st @ [base64Str],
                   idToIndex := (idToIndex st)(base64Str \<mapsto> i)\<rparr>))"

fun DecoderV4_loop :: "nat \<Rightarrow> parsed list \<Rightarrow> v4_state \<Rightarrow> v4_state option" where
  "DecoderV4_loop i [] st = Some st"
| "DecoderV4_loop i (src # srcs) st =
     (case DecoderV4_body i src st of
        None \<Rightarrow> None
      | Some st' \<Rightarrow> DecoderV4_loop (Suc i) srcs st')"

fun fail_pending ::
    "string list \<Rightarrow> (string \<rightharpoonup> nat) \<Rightarrow> string \<Rightarrow> DecodeResult list \<Rightarrow> DecodeResult list option"
  where
  \<comment> \<open>\<open>for _, id := range batchIDs { results[idToIndex[id]] = ... }\<close>\<close>
  "fail_pending [] m err rs = Some rs"
| "fail_pending (id' # ids) m err rs =
     (case go_assign rs (go_lookup m id') (failure (''batch execute failed: '' @ err)) of
        None \<Rightarrow> None
      | Some rs' \<Rightarrow> fail_pending ids m err rs')"

fun fill_resolved ::
    "nat \<Rightarrow> string list \<Rightarrow> string list \<Rightarrow> (string \<rightharpoonup> nat) \<Rightarrow> DecodeResult list
      \<Rightarrow> DecodeResult list option"
  where
  \<comment> \<open>\<open>for j, decodedURL := range batchResult.URLs { if j < len(batchIDs) { ... } }\<close>\<close>
  "fill_resolved j [] ids m rs = Some rs"
| "fill_resolved j (decodedURL # urls) ids m rs =
     (if j < length ids
      then (case go_assign rs (go_lookup m (ids ! j)) (success decodedURL) of
              None \<Rightarrow> None
            | Some rs' \<Rightarrow> fill_resolved (Suc j) urls ids m rs')
      else fill_resolved (Suc j) urls ids m rs)"

definition DecoderV4 :: "env \<Rightarrow> parsed list \<Rightarrow> DecodeResult list option" where
  \<comment> \<open>\<open>make([]DecodeResult, n)\<close> holds \<open>n\<close> zero values; \<open>None\<close> is a panic.\<close>
  "DecoderV4 e sourceURLs =
     (let st0 = \<lparr>results = replicate (length sourceURLs)
                               \<lparr>Status = False, DecodedURL = [], Message = []\<rparr>,
                 batchIDs = [], idToIndex = Map.empty\<rparr>
      in case DecoderV4_loop 0 sourceURLs st0 of
           None \<Rightarrow> None
         | Some st \<Rightarrow>
             if length (batchIDs st) > 0
             then (case fetchDecodedBatchExecuteMultiple e (batchIDs st) of
                     (batchResult, Some err) \<Rightarrow>
                       fail_pending (batchIDs st) (idToIndex st) err (results st)
                   | (batchResult, None) \<Rightarrow>
                       if BStatus batchResult
                       then fill_resolved 0 (URLs batchResult) (batchIDs st) (idToIndex st)
                              (results st)
                       else Some (results st))
             else Some (results st))"

record DecodingParams =
  PStatus :: bool
  Signature :: string
  Timestamp :: string
  Base64Str :: string
  PMessage :: string

fun findAttribute :: "string \<Rightarrow> string \<Rightarrow> string option" where
  \<comment> \<open>\<open>regexp.MustCompile(name="([^"]+)").FindStringSubmatch(html)[1]\<close>: the leftmost
      place where \<open>name="\<close> is followed by one or more bytes other than a double quote
      and then a double quote; the value between the quotes.\<close>
  "findAttribute name [] = None"
| "findAttribute name (c # html) =
     (let pat = name @ ''='' @ dq
      in if strings_HasPrefix (c # html) pat
         then (let rest = drop (length pat) (c # html);
                   v = takeWhile (\<lambda>x. x \<noteq> CHR 0x22) rest
               in if v \<noteq> [] \<and> length v < length rest then Some v
                  else findAttribute name html)
         else findAttribute name html)"

definition extractDataAttributes :: "string \<Rightarrow> string + string \<times> string" where
  \<comment> \<open>\<open>Inl\<close> the error, \<open>Inr (signature, timestamp)\<close>.\<close>
  "extractDataAttributes htmlContent =
     (case findAttribute ''data-n-a-sg'' htmlContent of
        None \<Rightarrow> Inl ''signature not found in HTML''
      | Some signature \<Rightarrow>
          (case findAttribute ''data-n-a-ts'' htmlContent of
             None \<Rightarrow> Inl ''timestamp not found in HTML''
           | Some timestamp \<Rightarrow> Inr (signature, timestamp)))"

definition userAgent :: "request \<Rightarrow> request" where
  "userAgent req =
     req\<lparr>Header := (Header req)(''User-Agent'' \<mapsto>
        ''Mozilla/5.0 (Windows NT 10.0; Win64; x64) AppleWebKit/537.36 (KHTML, like Gecko) Chrome/129.0.0.0 Safari/537.36'')\<rparr>"

definition paramsFailure :: "string \<Rightarrow> DecodingParams" where
  "paramsFailure m =
     \<lparr>PStatus = False, Signature = [], Timestamp = [], Base64Str = [], PMessage = m\<rparr>"

definition getDecodingParams_rss :: "env \<Rightarrow> string \<Rightarrow> DecodingParams" where
  \<comment> \<open>The second half of \<open>getDecodingParams\<close>: "Fallback to RSS URL".\<close>
  "getDecodingParams_rss e base64Str =
     (let rssURL = ''https://news.google.com/rss/articles/'' @ base64Str
      in case http_NewRequest e ''GET'' rssURL [] of
           Inl err \<Rightarrow> paramsFailure (''failed to create RSS request: '' @ err)
         | Inr req \<Rightarrow>
             (case client_Do e (userAgent req) of
                Inl err \<Rightarrow> paramsFailure (''request error: '' @ err)
              | Inr resp \<Rightarrow>
                  if StatusCode resp \<noteq> 200
                  then paramsFailure (''RSS request failed with status: ''
                                      @ strconv_Itoa (StatusCode resp))
                  else (case ReadErr resp of
                          Some err \<Rightarrow> paramsFailure (''failed to read response: '' @ err)
                        | None \<Rightarrow>
                            (case extractDataAttributes (Data resp) of
                               Inl err \<Rightarrow>
                                 paramsFailure (''failed to extract attributes: '' @ err)
                             | Inr (sig, ts) \<Rightarrow>
                                 \<lparr>PStatus = True, Signature = sig, Timestamp = ts,
                                  Base64Str = base64Str, PMessage = []\<rparr>))))"

definition getDecodingParams :: "env \<Rightarrow> string \<Rightarrow> DecodingParams" where
  \<comment> \<open>The first request reads the body whatever \<open>io.ReadAll\<close> reports (\<open>body, _ :=\<close>).\<close>
  "getDecodingParams e base64Str =
     (let articleURL = ''https://news.google.com/articles/'' @ base64Str
      in case http_NewRequest e ''GET'' articleURL [] of
           Inl err \<Rightarrow> paramsFailure (''failed to create request: '' @ err)
         | Inr req \<Rightarrow>
             (case client_Do e (userAgent req) of
                Inl err \<Rightarrow> getDecodingParams_rss e base64Str
              | Inr resp \<Rightarrow>
                  if StatusCode resp = 200
                  then (case extractDataAttributes (Data resp) of
                          Inr (sig, ts) \<Rightarrow>
                            \<lparr>PStatus = True, Signature = sig, Timestamp = ts,
                             Base64Str = base64Str, PMessage = []\<rparr>
                        | Inl err \<Rightarrow> getDecodingParams_rss e base64Str)
                  else getDecodingParams_rss e base64Str))"

definition garturlreq :: "string \<Rightarrow> string \<Rightarrow> string \<Rightarrow> string" where
  \<comment> \<open>The \<open>fmt.Sprintf\<close> template of \<open>decodeURLWithParams\<close>.\<close>
  "garturlreq base64Str timestamp signature =
     ''['' @ dq @ ''garturlreq'' @ dq @ '',[['' @ dq @ ''X'' @ dq @ '','' @ dq @ ''X'' @ dq
     @ '',['' @ dq @ ''X'' @ dq @ '','' @ dq @ ''X'' @ dq
     @ ''],null,null,1,1,'' @ dq @ ''US:en'' @ dq
     @ '',null,1,null,null,null,null,null,0,1],'' @ dq @ ''X'' @ dq @ '','' @ dq @ ''X'' @ dq
     @ '',1,[1,1,1],1,1,null,0,0,null,0],'' @ dq @ base64Str @ dq @ '','' @ timestamp
     @ '','' @ dq @ signature @ dq @ '']''"

definition decodeURLWithParams :: "env \<Rightarrow> string \<Rightarrow> string \<Rightarrow> string \<Rightarrow> DecodeResult" where
  "decodeURLWithParams e signature timestamp base64Str =
     (let apiURL = ''https://news.google.com/_/DotsSplashUi/data/batchexecute'';
          payload = JArray [JString ''Fbv4je'',
                            JString (garturlreq base64Str timestamp signature)]
      in case json_Marshal e (JArray [JArray [payload]]) of
           Inl err \<Rightarrow> failure (''failed to marshal payload: '' @ err)
         | Inr payloadJSON \<Rightarrow>
             (case http_NewRequest e ''POST'' apiURL
                     (url_Values_Encode e [(''f.req'', payloadJSON)]) of
                Inl err \<Rightarrow> failure (''failed to create request: '' @ err)
              | Inr req \<Rightarrow>
                  (case client_Do e
                          (userAgent (req\<lparr>Header := (Header req)(''Content-Type'' \<mapsto>
                             ''application/x-www-form-urlencoded;charset=UTF-8'')\<rparr>)) of
                     Inl err \<Rightarrow> failure (''request error: '' @ err)
                   | Inr resp \<Rightarrow>
                       (case ReadErr resp of
                          Some err \<Rightarrow> failure (''failed to read response: '' @ err)
                        | None \<Rightarrow>
                            (let parts = strings_SplitN2 (Data resp) [CHR 0x0A, CHR 0x0A]
                             in if length parts < 2 then failure ''invalid response format''
                                else (case json_Unmarshal e (parts ! 1) of
                                        Inl err \<Rightarrow>
                                          failure (''failed to parse response JSON: '' @ err)
                                      | Inr [] \<Rightarrow> failure ''empty response''
                                      | Inr (JArray outerArr # _) \<Rightarrow>
                                          if length outerArr < 3
                                          then failure ''unexpected response structure''
                                          else (case outerArr ! 2 of
                                                  JString innerJSON \<Rightarrow>
                                                    (case json_Unmarshal e innerJSON of
                                                       Inl err \<Rightarrow>
                                                         failure (''failed to parse inner JSON: '' @ err)
                                                     | Inr innerData \<Rightarrow>
                                                         if length innerData < 2
                                                         then failure ''decoded URL not found in response''
                                                         else (case innerData ! 1 of
                                                                 JString decodedURL \<Rightarrow> success decodedURL
                                                               | _ \<Rightarrow> failure ''decoded URL is not a string''))
                                                | _ \<Rightarrow> failure ''failed to extract inner JSON'')
                                      | Inr (_ # _) \<Rightarrow> failure ''unexpected response structure''))))))"

definition newDecoderV1WithClient :: "env \<Rightarrow> int option \<Rightarrow> parsed \<Rightarrow> DecodeResult" where
  \<comment> \<open>\<open>interval\<close> only delays the return (\<open>time.Sleep\<close>). The indexing is guarded by the
      length test before it; the function has no other place that can panic.\<close>
  "newDecoderV1WithClient e interval src =
     (case src of
        Inl err \<Rightarrow> failure (''failed to parse URL: '' @ err)
      | Inr parsedURL \<Rightarrow>
          (let path = strings_Split (Path parsedURL) (CHR ''/'')
           in if Host parsedURL \<noteq> ''news.google.com'' \<or> length path \<le> 1
              then failure ''invalid Google News URL format''
              else (let pathType = path ! (length path - 2)
                    in if pathType \<noteq> ''articles'' \<and> pathType \<noteq> ''read''
                       then failure ''invalid Google News URL format''
                       else (let base64Str = path ! (length path - 1);
                                 params = getDecodingParams e base64Str
                             in if \<not> PStatus params then failure (PMessage params)
                                else decodeURLWithParams e (Signature params)
                                       (Timestamp params) (Base64Str params)))))"

section \<open>google\_decoder.go\<close>

definition splitString :: "string \<Rightarrow> string \<Rightarrow> string list option" where
  \<comment> \<open>The loop compares each byte with \<open>sep[0]\<close>: an empty \<open>sep\<close> panics at the first byte.\<close>
  "splitString s sep =
     (if s = [] then Some [[]]
      else (case go_index sep 0 of
              None \<Rightarrow> None
            | Some c \<Rightarrow> Some (split_loop c [] s)))"

definition splitPath :: "string \<Rightarrow> string list option" where
  "splitPath path =
     (case splitString path ''/'' of
        None \<Rightarrow> None
      | Some ps \<Rightarrow> Some (filter (\<lambda>p. p \<noteq> []) ps))"

definition GetBase64Str :: "parsed \<Rightarrow> DecodeResult option" where
  "GetBase64Str src =
     (case src of
        Inl err \<Rightarrow> Some (failure ''failed to parse URL'')
      | Inr parsedURL \<Rightarrow>
          (case splitPath (Path parsedURL) of
             None \<Rightarrow> None
           | Some path \<Rightarrow>
               if Host parsedURL \<noteq> ''news.google.com'' \<or> length path \<le> 1
               then Some (failure ''invalid Google News URL format'')
               else (let pathType = path ! (length path - 2)
                     in if pathType \<noteq> ''articles'' \<and> pathType \<noteq> ''read''
                        then Some (failure ''invalid Google News URL format'')
                        else Some (success (path ! (length path - 1))))))"

definition Decode :: "env \<Rightarrow> parsed \<Rightarrow> int option \<Rightarrow> DecodeResult" where
  \<comment> \<open>\<open>(d *GoogleDecoder) Decode\<close>, with \<open>d.client\<close> behind the environment.\<close>
  "Decode e src interval = newDecoderV1WithClient e interval src"

section \<open>Environments for closed examples\<close>

definition canned :: "string + response \<Rightarrow> env" where
  \<comment> \<open>Every request is built as given and gets the same outcome from the client; the
      JSON codec refuses everything.\<close>
  "canned outcome =
     \<lparr>http_NewRequest = (\<lambda>m u b. Inr \<lparr>Method = m, Target = u, Body = b, Header = Map.empty\<rparr>),
      client_Do = (\<lambda>req. outcome),
      url_Values_Encode = (\<lambda>kvs. concat (map (\<lambda>(k, v). k @ ''='' @ v) kvs)),
      json_Marshal = (\<lambda>j. Inl ''unsupported''),
      json_Unmarshal = (\<lambda>s. Inl ''unsupported'')\<rparr>"

definition google :: "string \<Rightarrow> parsed" where
  \<comment> \<open>What \<open>url.Parse\<close> returns for \<open>https://news.google.com\<close> followed by a path of
      unreserved characters and slashes.\<close>
  "google p = Inr \<lparr>Host = ''news.google.com'', Path = p\<rparr>"

section \<open>Notions used to state the properties\<close>

definition newline :: "char \<Rightarrow> bool" where
  \<comment> \<open>The two bytes the base64 decoder skips.\<close>
  "newline c = (c = CHR 0x0A \<or> c = CHR 0x0D)"

definition frame :: "string \<Rightarrow> string \<Rightarrow> string" where
  \<comment> \<open>The record the binary decoder reverses: the prefix, one length byte, the payload,
      the bytes that follow it, the suffix.\<close>
  "frame payload filler =
     [CHR 0x08, CHR 0x13, CHR 0x22] @ [char_of (length payload)] @ payload @ filler
     @ [CHR 0xD2, CHR 0x01, CHR 0x00]"

section \<open>Properties\<close>

subsection \<open>The length-byte slicing step\<close>

lemma removePrefix_total: "\<exists>r. removePrefix s = Some r"
  by (auto simp: removePrefix_def strings_HasPrefix_def go_slice_def Let_def)

lemma removeSuffix_total: "\<exists>r. removeSuffix s = Some r"
  by (auto simp: removeSuffix_def strings_HasSuffix_def go_slice_def Let_def)

lemma extractURL_total: "\<exists>r. extractURL s = Some r"
  by (cases s) (simp_all add: extractURL_def go_index_def go_slice_def Let_def)

lemma decodeRecord_total: "\<exists>r. decodeRecord s = Some r"
proof -
  obtain s1 where "removePrefix s = Some s1"
    using removePrefix_total by blast
  moreover obtain s2 where "removeSuffix s1 = Some s2"
    using removeSuffix_total by blast
  moreover obtain r where "extractURL s2 = Some r"
    using extractURL_total by blast
  ultimately show ?thesis
    by (simp add: decodeRecord_def)
qed

text \<open>
  C5. The slicing step never panics, whatever the bytes, and so neither does the whole
  record decoder; and when the bytes left after the prefix and the suffix are removed are
  fewer than \<open>L + 1\<close>, with \<open>L\<close> the value of their first byte, the record decoder returns
  them unchanged.
\<close>

theorem short_record_unchanged:
  "(\<exists>r. extractURL s = Some r) \<and> (\<exists>r. decodeRecord bytes = Some r) \<and>
   (removePrefix bytes = Some s1 \<and> removeSuffix s1 = Some s \<and> s \<noteq> []
      \<and> int (length s) < int (of_char (hd s)) + 1
    \<longrightarrow> extractURL s = Some s \<and> decodeRecord bytes = Some s)"
proof -
  have "extractURL s = Some s"
    if "s \<noteq> []" and "int (length s) < int (of_char (hd s)) + 1"
    using that by (cases s) (auto simp: extractURL_def go_index_def Let_def)
  then show ?thesis
    using extractURL_total decodeRecord_total by (auto simp: decodeRecord_def)
qed

theorem short_record_unchanged_witness:
  "removePrefix [CHR 0x08, CHR 0x13, CHR 0x22, CHR 0x05, CHR ''a''] = Some [CHR 0x05, CHR ''a'']
   \<and> removeSuffix [CHR 0x05, CHR ''a''] = Some [CHR 0x05, CHR ''a'']
   \<and> int (length [CHR 0x05, CHR ''a'']) < int (of_char (hd [CHR 0x05, CHR ''a''])) + 1
   \<and> decodeRecord [CHR 0x08, CHR 0x13, CHR 0x22, CHR 0x05, CHR ''a''] = Some [CHR 0x05, CHR ''a'']"
proof -
  have p: "removePrefix [CHR 0x08, CHR 0x13, CHR 0x22, CHR 0x05, CHR ''a''] = Some [CHR 0x05, CHR ''a'']"
    by (simp add: removePrefix_def strings_HasPrefix_def go_slice_def)
  have q: "removeSuffix [CHR 0x05, CHR ''a''] = Some [CHR 0x05, CHR ''a'']"
    by (simp add: removeSuffix_def strings_HasSuffix_def)
  have l: "int (length [CHR 0x05, CHR ''a'']) < int (of_char (hd [CHR 0x05, CHR ''a''])) + 1"
    by simp
  show ?thesis
    using short_record_unchanged
      [of "[CHR 0x05, CHR ''a'']" "[CHR 0x08, CHR 0x13, CHR 0x22, CHR 0x05, CHR ''a'']"
          "[CHR 0x05, CHR ''a'']"] p q l
    by simp
qed


subsection \<open>Base64: what the appended padding accepts\<close>

lemma decodeMap_specials:
  "decodeMap (CHR 0x0A) = None" "decodeMap (CHR 0x0D) = None" "decodeMap (CHR ''='') = None"
  by code_simp+

lemma skipNewlines_pad_nonempty: "skipNewlines (s @ ''=='') \<noteq> []"
  by (induction s) auto

lemma skipNewlines_pad_rest:
  "skipNewlines (s @ ''=='') = CHR ''='' # d \<Longrightarrow> skipNewlines d \<noteq> []"
proof (induction s)
  case Nil
  then show ?case by auto
next
  case (Cons c s)
  then show ?case
    using skipNewlines_pad_nonempty [of s] by (auto split: if_splits)
qed

lemma decodeLoop_padded_count:
  "decodeLoop si dbuf (tok @ ''=='') = Inr out \<Longrightarrow> length dbuf < 4 \<Longrightarrow>
   (length dbuf + length (filter (\<lambda>c. \<not> newline c) tok)) mod 4 = 2"
proof (induction tok arbitrary: si dbuf out)
  case Nil
  then show ?case
    by (auto simp: decodeMap_specials Let_def split: if_splits)
next
  case (Cons c tok)
  show ?case
  proof (cases "decodeMap c")
    case (Some v)
    then have nn: "\<not> newline c"
      using decodeMap_specials by (auto simp: newline_def)
    show ?thesis
    proof (cases "length dbuf = 3")
      case True
      then obtain rest where "decodeLoop (si + 1) [] (tok @ ''=='') = Inr rest"
        using Cons.prems Some by (auto split: sum.splits)
      then have "(length ([]::nat list) + length (filter (\<lambda>c. \<not> newline c) tok)) mod 4 = 2"
        by (rule Cons.IH) simp
      then show ?thesis
        using True nn by (simp add: mod_Suc)
    next
      case False
      then have "decodeLoop (si + 1) (dbuf @ [v]) (tok @ ''=='') = Inr out"
        using Cons.prems Some by simp
      then have "(length (dbuf @ [v]) + length (filter (\<lambda>c. \<not> newline c) tok)) mod 4 = 2"
        using Cons.prems False by (intro Cons.IH) auto
      then show ?thesis
        using nn by simp
    qed
  next
    case None
    show ?thesis
    proof (cases "newline c")
      case True
      then have "decodeLoop (si + 1) dbuf (tok @ ''=='') = Inr out"
        using Cons.prems None by (simp add: newline_def)
      then show ?thesis
        using Cons.IH Cons.prems True by simp
    next
      case False
      then have False
        using Cons.prems None skipNewlines_pad_nonempty [of tok] skipNewlines_pad_rest [of tok]
        by (auto simp: newline_def Let_def split: if_splits list.splits)
      then show ?thesis ..
    qed
  qed
qed


subsection \<open>Base64: decoding what the encoder wrote\<close>

lemma length_encodeURL: "length encodeURL = 64"
  by (simp add: encodeURL_def)

lemma distinct_encodeURL: "distinct encodeURL"
  by (simp add: encodeURL_def)

lemma decodeMap_encodeURL: "v < 64 \<Longrightarrow> decodeMap (encodeURL ! v) = Some v"
proof -
  assume v: "v < 64"
  have "map_of (zip encodeURL [0..<length encodeURL]) (encodeURL ! v)
          = Some ([0..<length encodeURL] ! v)"
    using v distinct_encodeURL by (intro map_of_zip_nth) (simp_all add: length_encodeURL)
  moreover have "[0..<length encodeURL] ! v = 0 + v"
    using v by (intro nth_upt) (simp add: length_encodeURL)
  ultimately show ?thesis
    by (simp only: decodeMap_def, simp)
qed

lemma sextets_sum:
  fixes val :: nat
  assumes "val < 2 ^ 24"
  shows "(val div 2 ^ 18 mod 64) * 2 ^ 18 + (val div 2 ^ 12 mod 64) * 2 ^ 12
     + (val div 2 ^ 6 mod 64) * 2 ^ 6 + val mod 64 = val"
proof -
  define a b c where "a = val div 64" and "b = a div 64" and "c = b div 64"
  define r0 r1 r2 where "r0 = val mod 64" and "r1 = a mod 64" and "r2 = b mod 64"
  have e1: "val = a * 64 + r0"
    by (simp add: a_def r0_def)
  have e2: "a = b * 64 + r1"
    by (simp add: b_def r1_def)
  have e3: "b = c * 64 + r2"
    by (simp add: c_def r2_def)
  have d6: "val div 2 ^ 6 = a"
    by (simp add: a_def)
  have "val div (64 * 64) = val div 64 div 64"
    by (rule div_mult2_eq)
  then have d12: "val div 2 ^ 12 = b"
    by (simp add: a_def b_def)
  have "val div (64 * 64 * 64) = val div (64 * 64) div 64"
    by (rule div_mult2_eq)
  then have d18: "val div 2 ^ 18 = c"
    using d12 by (simp add: c_def)
  have "val < 64 * 2 ^ 18"
    using assms by simp
  then have "val div 2 ^ 18 < 64"
    by (rule less_mult_imp_div_less)
  then have c: "c mod 64 = c"
    using d18 by simp
  have "c * 262144 + r2 * 4096 + r1 * 64 + r0 = val"
    using e1 e2 e3 by linarith
  then show ?thesis
    unfolding d6 d12 d18 c r0_def [symmetric] r1_def [symmetric] r2_def [symmetric]
    by simp
qed

lemma bytes3:
  fixes A B C :: nat
  assumes "A < 256" "B < 256" "C < 256"
  shows "(A * 65536 + B * 256 + C) div 65536 mod 256 = A"
    and "(A * 65536 + B * 256 + C) div 256 mod 256 = B"
    and "(A * 65536 + B * 256 + C) mod 256 = C"
proof -
  have lo: "B * 256 + C < 65536"
    using assms by linarith
  have "(B * 256 + C + A * 65536) div 65536 = A + (B * 256 + C) div 65536"
    by (rule div_mult_self1) simp
  then have "(A * 65536 + B * 256 + C) div 65536 = A"
    using lo by (simp add: add.commute add.left_commute)
  then show "(A * 65536 + B * 256 + C) div 65536 mod 256 = A"
    using assms by simp
  have w: "A * 65536 + B * 256 + C = C + (A * 256 + B) * 256"
    by simp
  have "(C + (A * 256 + B) * 256) div 256 = (A * 256 + B) + C div 256"
    by (rule div_mult_self1) simp
  then have "(A * 65536 + B * 256 + C) div 256 = A * 256 + B"
    using assms unfolding w by simp
  moreover have "(B + A * 256) mod 256 = B mod 256"
    by (rule mod_mult_self1)
  ultimately show "(A * 65536 + B * 256 + C) div 256 mod 256 = B"
    using assms by (simp add: add.commute)
  have "(C + (A * 256 + B) * 256) mod 256 = C mod 256"
    by (rule mod_mult_self1)
  then show "(A * 65536 + B * 256 + C) mod 256 = C"
    using assms unfolding w by simp
qed

lemma char_of_byte: "n mod 256 = of_char c \<Longrightarrow> char_of (n::nat) = c"
  by (metis char_of_char char_of_mod_256)

lemma quantumBytes_4:
  fixes a b c :: char
  defines "val \<equiv> (of_char a :: nat) * 2 ^ 16 + of_char b * 2 ^ 8 + of_char c"
  shows "quantumBytes [val div 2 ^ 18 mod 64, val div 2 ^ 12 mod 64,
                       val div 2 ^ 6 mod 64, val mod 64] = [a, b, c]"
proof -
  have A: "(of_char a :: nat) < 256" and B: "(of_char b :: nat) < 256"
    and C: "(of_char c :: nat) < 256"
    by (rule nat_of_char_less_256)+
  have v: "val = of_char a * 65536 + of_char b * 256 + of_char c"
    by (simp add: val_def)
  moreover have "(2::nat) ^ 24 = 16777216"
    by simp
  ultimately have lt: "val < 2 ^ 24"
    using A B C by linarith
  define d0 d1 d2 d3 where "d0 = val div 2 ^ 18 mod 64" and "d1 = val div 2 ^ 12 mod 64"
    and "d2 = val div 2 ^ 6 mod 64" and "d3 = val mod 64"
  have sum: "d0 * 2 ^ 18 + d1 * 2 ^ 12 + d2 * 2 ^ 6 + d3 = val"
    unfolding d0_def d1_def d2_def d3_def by (rule sextets_sum [OF lt])
  have 1: "char_of (val div 2 ^ 16) = a"
    using bytes3(1) [OF A B C] by (intro char_of_byte) (simp add: v)
  have 2: "char_of (val div 2 ^ 8) = b"
    using bytes3(2) [OF A B C] by (intro char_of_byte) (simp add: v)
  have 3: "char_of val = c"
    using bytes3(3) [OF A B C] by (intro char_of_byte) (simp add: v)
  have "quantumBytes [d0, d1, d2, d3]
          = [char_of (val div 2 ^ 16), char_of (val div 2 ^ 8), char_of val]"
    unfolding quantumBytes_def Let_def sum [symmetric] by simp
  then show ?thesis
    unfolding d0_def d1_def d2_def d3_def 1 2 3 .
qed

lemma quantumBytes_3:
  fixes a b :: char
  defines "val \<equiv> (of_char a :: nat) * 2 ^ 16 + of_char b * 2 ^ 8"
  shows "quantumBytes [val div 2 ^ 18 mod 64, val div 2 ^ 12 mod 64, val div 2 ^ 6 mod 64]
           = [a, b]"
proof -
  have A: "(of_char a :: nat) < 256" and B: "(of_char b :: nat) < 256"
    and C: "(0 :: nat) < 256"
    by (simp_all add: nat_of_char_less_256)
  have v: "val = of_char a * 65536 + of_char b * 256 + 0"
    by (simp add: val_def)
  moreover have "(2::nat) ^ 24 = 16777216"
    by simp
  ultimately have lt: "val < 2 ^ 24"
    using A B by linarith
  have "val = (of_char a * 1024 + of_char b * 4) * 64"
    by (simp add: v)
  then have z: "val mod 64 = 0"
    by simp
  define d0 d1 d2 where "d0 = val div 2 ^ 18 mod 64" and "d1 = val div 2 ^ 12 mod 64"
    and "d2 = val div 2 ^ 6 mod 64"
  have sum: "d0 * 2 ^ 18 + d1 * 2 ^ 12 + d2 * 2 ^ 6 + 0 = val"
    unfolding d0_def d1_def d2_def by (rule sextets_sum [OF lt, unfolded z])
  have 1: "char_of (val div 2 ^ 16) = a"
    using bytes3(1) [OF A B C] by (intro char_of_byte) (simp add: v)
  have 2: "char_of (val div 2 ^ 8) = b"
    using bytes3(2) [OF A B C] by (intro char_of_byte) (simp add: v)
  have "quantumBytes [d0, d1, d2] = [char_of (val div 2 ^ 16), char_of (val div 2 ^ 8)]"
    unfolding quantumBytes_def Let_def sum [symmetric] by simp
  then show ?thesis
    unfolding d0_def d1_def d2_def 1 2 .
qed

lemma quantumBytes_2:
  fixes a :: char
  defines "val \<equiv> (of_char a :: nat) * 2 ^ 16"
  shows "quantumBytes [val div 2 ^ 18 mod 64, val div 2 ^ 12 mod 64] = [a]"
proof -
  have A: "(of_char a :: nat) < 256" and B: "(0 :: nat) < 256"
    by (simp_all add: nat_of_char_less_256)
  have v: "val = of_char a * 65536 + 0 * 256 + 0"
    by (simp add: val_def)
  moreover have "(2::nat) ^ 24 = 16777216"
    by simp
  ultimately have lt: "val < 2 ^ 24"
    using A by linarith
  have w: "val = (of_char a * 16 * 64) * 64"
    by (simp add: v)
  have z: "val mod 64 = 0"
    unfolding w by simp
  have "val div 64 = of_char a * 16 * 64"
    unfolding w by simp
  then have z2: "val div 2 ^ 6 mod 64 = 0"
    by simp
  define d0 d1 where "d0 = val div 2 ^ 18 mod 64" and "d1 = val div 2 ^ 12 mod 64"
  have sum: "d0 * 2 ^ 18 + d1 * 2 ^ 12 + 0 * 2 ^ 6 + 0 = val"
    unfolding d0_def d1_def by (rule sextets_sum [OF lt, unfolded z z2])
  have 1: "char_of (val div 2 ^ 16) = a"
    using bytes3(1) [OF A B B] by (intro char_of_byte) (simp add: v)
  have "quantumBytes [d0, d1] = [char_of (val div 2 ^ 16)]"
    unfolding quantumBytes_def Let_def sum [symmetric] by simp
  then show ?thesis
    unfolding d0_def d1_def 1 .
qed

lemma decode_encode:
  "padded \<Longrightarrow> decodeLoop si [] (encodeLoop padded src) = Inr src"
proof (induction padded src arbitrary: si rule: encodeLoop.induct)
  case (1 padded a b c src)
  have "decodeLoop (si + 1 + 1 + 1 + 1) [] (encodeLoop padded src) = Inr src"
    by (rule "1.IH" [OF refl "1.prems"])
  then show ?case
    using quantumBytes_4 [of a b c]
    by (simp add: decodeMap_encodeURL Let_def)
next
  case (2 padded a b)
  then show ?case
    using quantumBytes_3 [of a b]
    by (simp add: decodeMap_encodeURL decodeMap_specials Let_def)
next
  case (3 padded a)
  then show ?case
    using quantumBytes_2 [of a]
    by (simp add: decodeMap_encodeURL decodeMap_specials Let_def)
next
  case (4 padded)
  show ?case by simp
qed

lemma raw_padded:
  "\<not> padded \<Longrightarrow> length src mod 3 = 1
   \<Longrightarrow> encodeLoop padded src @ ''=='' = encodeLoop True src"
  by (induction padded src rule: encodeLoop.induct) (simp_all add: Let_def)

lemma removePrefix_append:
  "removePrefix ([CHR 0x08, CHR 0x13, CHR 0x22] @ s) = Some s"
  by (simp add: removePrefix_def strings_HasPrefix_def go_slice_def)

lemma removeSuffix_append:
  "removeSuffix (s @ [CHR 0xD2, CHR 0x01, CHR 0x00]) = Some s"
  by (simp add: removeSuffix_def strings_HasSuffix_def go_slice_def)

lemma extractURL_short_length:
  assumes "length payload < 128" and "filler \<noteq> []"
  shows "extractURL (char_of (length payload) # payload @ filler) = Some payload"
proof -
  have L: "(of_char (char_of (length payload) :: char) :: nat) = length payload"
    using assms(1) by (simp add: of_char_of)
  have "nat (int (length payload) + 1 - 1) = length payload"
    by simp
  then show ?thesis
    using assms by (simp add: extractURL_def go_index_def go_slice_def L)
qed

lemma framed_record:
  assumes "length payload < 128" and "filler \<noteq> []"
  shows "decodeRecord (frame payload filler) = Some payload"
proof -
  have "frame payload filler = [CHR 0x08, CHR 0x13, CHR 0x22]
          @ ((char_of (length payload) # payload @ filler) @ [CHR 0xD2, CHR 0x01, CHR 0x00])"
    by (simp add: frame_def)
  then show ?thesis
    using extractURL_short_length [OF assms]
    by (simp only: decodeRecord_def removePrefix_append removeSuffix_append option.case)
qed

lemma split_loop_no_sep: "sep \<notin> set s \<Longrightarrow> split_loop sep cur s = [cur @ s]"
  by (induction s arbitrary: cur) auto

lemma strings_Split_articles:
  "CHR ''/'' \<notin> set tok \<Longrightarrow>
   strings_Split (''/articles/'' @ tok) (CHR ''/'') = ['''', ''articles'', tok]"
  by (simp add: strings_Split_def split_loop_no_sep)

lemma set_encodeLoop: "set (encodeLoop padded src) \<subseteq> set encodeURL \<union> {CHR ''=''}"
proof (induction padded src rule: encodeLoop.induct)
  case (1 padded a b c src)
  then show ?case
    by (auto simp: Let_def length_encodeURL intro!: nth_mem)
qed (auto simp: Let_def length_encodeURL intro!: nth_mem)

lemma slash_not_in_token: "CHR ''/'' \<notin> set (base64_RawURLEncoding_EncodeToString src)"
proof -
  have "CHR ''/'' \<notin> set encodeURL"
    by (simp add: encodeURL_def)
  then show ?thesis
    using set_encodeLoop [of False src]
    by (auto simp: base64_RawURLEncoding_EncodeToString_def)
qed

lemma decode_token:
  "length src mod 3 = 1 \<Longrightarrow>
   base64_DecodeString (base64_RawURLEncoding_EncodeToString src @ ''=='') = Inr src"
  by (simp add: base64_DecodeString_def base64_RawURLEncoding_EncodeToString_def
      raw_padded decode_encode)



subsection \<open>Evaluating the codec on given strings\<close>

lemma char_of_nat_eq_iff: "(char_of (n::nat) = c) = (n mod 256 = of_char c)"
  by (metis char_of_byte of_char_of)

lemma decodeMap_table:
  "decodeMap c = map_of
     [
     (CHR ''A'', 0), (CHR ''B'', 1), (CHR ''C'', 2), (CHR ''D'', 3), (CHR ''E'', 4), (CHR
      ''F'', 5), (CHR ''G'', 6), (CHR ''H'', 7), (CHR ''I'', 8), (CHR ''J'', 9), (CHR
      ''K'', 10), (CHR ''L'', 11), (CHR ''M'', 12), (CHR ''N'', 13), (CHR ''O'', 14), (CHR
      ''P'', 15), (CHR ''Q'', 16), (CHR ''R'', 17), (CHR ''S'', 18), (CHR ''T'', 19), (CHR
      ''U'', 20), (CHR ''V'', 21), (CHR ''W'', 22), (CHR ''X'', 23), (CHR ''Y'', 24), (CHR
      ''Z'', 25), (CHR ''a'', 26), (CHR ''b'', 27), (CHR ''c'', 28), (CHR ''d'', 29), (CHR
      ''e'', 30), (CHR ''f'', 31), (CHR ''g'', 32), (CHR ''h'', 33), (CHR ''i'', 34), (CHR
      ''j'', 35), (CHR ''k'', 36), (CHR ''l'', 37), (CHR ''m'', 38), (CHR ''n'', 39), (CHR
      ''o'', 40), (CHR ''p'', 41), (CHR ''q'', 42), (CHR ''r'', 43), (CHR ''s'', 44), (CHR
      ''t'', 45), (CHR ''u'', 46), (CHR ''v'', 47), (CHR ''w'', 48), (CHR ''x'', 49), (CHR
      ''y'', 50), (CHR ''z'', 51), (CHR ''0'', 52), (CHR ''1'', 53), (CHR ''2'', 54), (CHR
      ''3'', 55), (CHR ''4'', 56), (CHR ''5'', 57), (CHR ''6'', 58), (CHR ''7'', 59), (CHR
      ''8'', 60), (CHR ''9'', 61), (CHR ''-'', 62), (CHR ''_'', 63)] c"
  by (simp add: decodeMap_def encodeURL_def upt_rec)

lemmas encode_eval = base64_RawURLEncoding_EncodeToString_def frame_def encodeURL_def Let_def

lemma strconv_digits_numeral:
  "strconv_digits (numeral k) n =
     (if n < 10 then [char_of (48 + n)]
      else strconv_digits (pred_numeral k) (n div 10) @ [char_of (48 + n mod 10)])"
  by (simp add: numeral_eq_Suc)


end
